theory Spec2Isabelle
  imports Main
begin

section \<open>Verthandi: a command-line client of the Clockify time tracker\<close>

text \<open>
  The development follows the Python sources \<^verbatim>\<open>verthandi/clockify/client.py\<close>,
  \<^verbatim>\<open>verthandi/config.py\<close> and \<^verbatim>\<open>verthandi/cli/main.py\<close>.
  A Python \<^verbatim>\<open>str\<close> is a \<^typ>\<open>string\<close> (code points below 256), an
  \<^verbatim>\<open>Optional[str]\<close> is a \<^typ>\<open>string option\<close>, and every exception the code can
  raise is a value \<open>Inl e\<close> of the result type \<open>error + 'a\<close>.
\<close>

subsection \<open>Exceptions\<close>

datatype error =
    ValueError
  | KeyError
  | TypeError
  | AttributeError
  | FileNotFoundError
  | PermissionError
  | ValidationError
  | JSONDecodeError
  | JSONEncodeError
  | ConnectionError

subsection \<open>String operations of Python used by the code\<close>

text \<open>\<^verbatim>\<open>s.replace(old, new, 1)\<close>: the first occurrence of \<open>old\<close> is replaced.\<close>

fun replace_first :: "string \<Rightarrow> string \<Rightarrow> string \<Rightarrow> string" where
  "replace_first old new [] = (if old = [] then new else [])"
| "replace_first old new (c # cs) =
     (if take (length old) (c # cs) = old then new @ drop (length old) (c # cs)
      else c # replace_first old new cs)"

text \<open>\<^verbatim>\<open>s.split(c, 1)\<close> for a string that contains \<open>c\<close>: the parts before and after the
  first \<open>c\<close>.\<close>

definition split_once :: "char \<Rightarrow> string \<Rightarrow> string \<times> string" where
  "split_once c s = (takeWhile (\<lambda>x. x \<noteq> c) s, drop 1 (dropWhile (\<lambda>x. x \<noteq> c) s))"

definition is_ascii_alpha :: "char \<Rightarrow> bool" where
  "is_ascii_alpha c =
     (let n = (of_char c :: nat) in (65 \<le> n \<and> n \<le> 90) \<or> (97 \<le> n \<and> n \<le> 122))"

text \<open>\<^verbatim>\<open>str.lower\<close> on one character of the ASCII range.\<close>

definition lower_char :: "char \<Rightarrow> char" where
  "lower_char c =
     (let n = (of_char c :: nat) in if 65 \<le> n \<and> n \<le> 90 then char_of (n + 32) else c)"

subsection \<open>\<^verbatim>\<open>urllib.parse\<close>: the library functions behind the reports URL\<close>

text \<open>
  \<^verbatim>\<open>urlparse\<close> and \<^verbatim>\<open>urlunparse\<close> belong to the Python standard library; they are
  transcribed from CPython 3.11 (\<^verbatim>\<open>Lib/urllib/parse.py\<close>), statement by statement.
  Two checks of the library are not string manipulation: \<^verbatim>\<open>_check_bracketed_host\<close> (it
  parses an IP literal) is taken as the parameter \<open>bracket_ok\<close>, and \<^verbatim>\<open>_checknetloc\<close>
  only ever raises for code points above 255, which a \<^typ>\<open>string\<close> does not hold.
\<close>

record ParseResult =
  scheme :: string
  netloc :: string
  path :: string
  params :: string
  query :: string
  fragment :: string

definition uses_netloc :: "string list" where
  "uses_netloc = ['''', ''ftp'', ''http'', ''gopher'', ''nntp'', ''telnet'',
     ''imap'', ''wais'', ''file'', ''mms'', ''https'', ''shttp'',
     ''snews'', ''prospero'', ''rtsp'', ''rtsps'', ''rtspu'', ''rsync'',
     ''svn'', ''svn+ssh'', ''sftp'', ''nfs'', ''git'', ''git+ssh'',
     ''ws'', ''wss'']"

definition uses_params :: "string list" where
  "uses_params = ['''', ''ftp'', ''hdl'', ''prospero'', ''http'', ''imap'',
     ''https'', ''shttp'', ''rtsp'', ''rtsps'', ''rtspu'', ''sip'',
     ''sips'', ''mms'', ''sftp'', ''tel'']"

definition scheme_chars :: string where
  "scheme_chars =
     ''abcdefghijklmnopqrstuvwxyzABCDEFGHIJKLMNOPQRSTUVWXYZ0123456789+-.''"

text \<open>\<^verbatim>\<open>_WHATWG_C0_CONTROL_OR_SPACE\<close>: the code points 0 to 32.\<close>

definition c0_control_or_space :: "char \<Rightarrow> bool" where
  "c0_control_or_space c = ((of_char c :: nat) \<le> 32)"

text \<open>\<^verbatim>\<open>_UNSAFE_URL_BYTES_TO_REMOVE\<close>: tab, carriage return, line feed.\<close>

definition unsafe_url_byte :: "char \<Rightarrow> bool" where
  "unsafe_url_byte c = ((of_char c :: nat) \<in> {9, 13, 10})"

text \<open>\<^verbatim>\<open>_splitnetloc(url, 2)\<close> for a \<open>url\<close> that starts with two slashes: the network
  location runs up to the first of \<open>/\<close>, \<open>?\<close>, \<open>#\<close>.\<close>

definition splitnetloc :: "string \<Rightarrow> string \<times> string" where
  "splitnetloc url =
     (let r = drop 2 url; d = (\<lambda>x. x \<notin> set ''/?#'')
      in (takeWhile d r, dropWhile d r))"

text \<open>\<^verbatim>\<open>netloc.partition('[')[2].partition(']')[0]\<close>.\<close>

definition bracketed_host :: "string \<Rightarrow> string" where
  "bracketed_host nl =
     takeWhile (\<lambda>x. x \<noteq> CHR '']'') (drop 1 (dropWhile (\<lambda>x. x \<noteq> CHR ''['') nl))"

definition urlsplit :: "(string \<Rightarrow> bool) \<Rightarrow> string \<Rightarrow> error + ParseResult" where
  "urlsplit bracket_ok url0 =
     (let url1 = dropWhile c0_control_or_space url0;
          url2 = filter (\<lambda>c. \<not> unsafe_url_byte c) url1;
          cand = takeWhile (\<lambda>x. x \<noteq> CHR '':'') url2;
          has_scheme = (CHR '':'' \<in> set url2 \<and> cand \<noteq> [] \<and> is_ascii_alpha (hd url2)
                         \<and> list_all (\<lambda>c. c \<in> set scheme_chars) cand);
          sch = (if has_scheme then map lower_char cand else []);
          url3 = (if has_scheme then drop (Suc (length cand)) url2 else url2);
          has_netloc = (take 2 url3 = ''//'');
          nl = (if has_netloc then fst (splitnetloc url3) else []);
          url4 = (if has_netloc then snd (splitnetloc url3) else url3)
      in if has_netloc \<and> ((CHR ''['' \<in> set nl \<and> CHR '']'' \<notin> set nl)
                          \<or> (CHR '']'' \<in> set nl \<and> CHR ''['' \<notin> set nl))
         then Inl ValueError
         else if has_netloc \<and> CHR ''['' \<in> set nl \<and> CHR '']'' \<in> set nl
                 \<and> \<not> bracket_ok (bracketed_host nl)
         then Inl ValueError
         else
           let frag = (if CHR ''#'' \<in> set url4 then snd (split_once CHR ''#'' url4) else []);
               url5 = (if CHR ''#'' \<in> set url4 then fst (split_once CHR ''#'' url4) else url4);
               qry = (if CHR ''?'' \<in> set url5 then snd (split_once CHR ''?'' url5) else []);
               url6 = (if CHR ''?'' \<in> set url5 then fst (split_once CHR ''?'' url5) else url5)
           in Inr \<lparr>scheme = sch, netloc = nl, path = url6, params = [],
                    query = qry, fragment = frag\<rparr>)"

text \<open>\<^verbatim>\<open>_splitparams\<close>: the parameters are what follows the first \<open>;\<close> of the last path
  segment.\<close>

definition splitparams :: "string \<Rightarrow> string \<times> string" where
  "splitparams url =
     (if CHR ''/'' \<in> set url then
        (let seg = rev (takeWhile (\<lambda>x. x \<noteq> CHR ''/'') (rev url));
             pre = take (length url - length seg) url
         in if CHR '';'' \<notin> set seg then (url, [])
            else (pre @ takeWhile (\<lambda>x. x \<noteq> CHR '';'') seg,
                  drop 1 (dropWhile (\<lambda>x. x \<noteq> CHR '';'') seg)))
      else (takeWhile (\<lambda>x. x \<noteq> CHR '';'') url,
            drop 1 (dropWhile (\<lambda>x. x \<noteq> CHR '';'') url)))"

definition urlparse :: "(string \<Rightarrow> bool) \<Rightarrow> string \<Rightarrow> error + ParseResult" where
  "urlparse bracket_ok url =
     (case urlsplit bracket_ok url of
        Inl e \<Rightarrow> Inl e
      | Inr r \<Rightarrow>
          if scheme r \<in> set uses_params \<and> CHR '';'' \<in> set (path r)
          then Inr (r\<lparr>path := fst (splitparams (path r)),
                      params := snd (splitparams (path r))\<rparr>)
          else Inr (r\<lparr>params := []\<rparr>))"

definition urlunsplit :: "string \<Rightarrow> string \<Rightarrow> string \<Rightarrow> string \<Rightarrow> string \<Rightarrow> string" where
  "urlunsplit sch nl url qry frag =
     (let url1 = (if nl \<noteq> [] \<or> (sch \<noteq> [] \<and> sch \<in> set uses_netloc) \<or> take 2 url = ''//''
                  then ''//'' @ nl @ (if url \<noteq> [] \<and> take 1 url \<noteq> ''/'' then ''/'' @ url else url)
                  else url);
          url2 = (if sch \<noteq> [] then sch @ '':'' @ url1 else url1);
          url3 = (if qry \<noteq> [] then url2 @ ''?'' @ qry else url2)
      in if frag \<noteq> [] then url3 @ ''#'' @ frag else url3)"

definition urlunparse :: "ParseResult \<Rightarrow> string" where
  "urlunparse r =
     urlunsplit (scheme r) (netloc r)
       (if params r \<noteq> [] then path r @ '';'' @ params r else path r)
       (query r) (fragment r)"

subsection \<open>Python values\<close>

text \<open>
  Python values that travel through the client: decoded JSON documents, request bodies
  (the commands put a \<^verbatim>\<open>datetime\<close> in them) and query parameters. A \<^verbatim>\<open>dict\<close> is the
  list of its items, and a \<^verbatim>\<open>float\<close> is given by its \<^verbatim>\<open>repr\<close>.
\<close>

datatype pyobj =
    PNone
  | PBool bool
  | PInt int
  | PFloat string
  | PStr string
  | PDatetime int
  | PList "pyobj list"
  | PDict "(string \<times> pyobj) list"

text \<open>\<^verbatim>\<open>obj[key]\<close> with a string key: only a \<^verbatim>\<open>dict\<close> can be subscripted by a string.\<close>

fun subscript :: "pyobj \<Rightarrow> string \<Rightarrow> error + pyobj" where
  "subscript (PDict kvs) k = (case map_of kvs k of None \<Rightarrow> Inl KeyError | Some v \<Rightarrow> Inr v)"
| "subscript _ k = Inl TypeError"

text \<open>
  A replacement field \<^verbatim>\<open>{value}\<close> of an f-string: a \<^verbatim>\<open>str\<close> is inserted as it is, any other
  value as Python's \<^verbatim>\<open>str(value)\<close>, which the model takes as the parameter \<open>str_of\<close>.
\<close>

definition format_value :: "(pyobj \<Rightarrow> string) \<Rightarrow> pyobj \<Rightarrow> string" where
  "format_value str_of v = (case v of PStr s \<Rightarrow> s | _ \<Rightarrow> str_of v)"

subsection \<open>The Clockify client: URL construction\<close>

text \<open>
  \<^verbatim>\<open>Defaults\<close> of \<^verbatim>\<open>verthandi/clockify/typing.py\<close>. The declaration says \<^verbatim>\<open>str\<close> for both
  entries, but nothing checks it: the entries are whatever the user document holds.
\<close>

record Defaults =
  workspaceId :: pyobj
  userId :: pyobj

text \<open>
  A \<^verbatim>\<open>ClockifyClient\<close>: the headers of its \<^verbatim>\<open>requests.Session\<close>, \<^verbatim>\<open>_base_url\<close> and
  \<^verbatim>\<open>_defaults\<close>. The attribute \<^verbatim>\<open>_defaults\<close> is assigned at the end of \<^verbatim>\<open>__init__\<close>;
  until then it does not exist (\<open>None\<close>), and reading it raises \<^verbatim>\<open>AttributeError\<close>.
\<close>

record ClockifyClient =
  session_headers :: "string \<rightharpoonup> string"
  base_url :: string
  defaults :: "Defaults option"

text \<open>The values of \<^verbatim>\<open>url_type\<close>; \<open>None\<close> is the plain endpoint.\<close>

datatype url_type = Report | Workspace | Workspace_user

definition reports_base_url :: "(string \<Rightarrow> bool) \<Rightarrow> ClockifyClient \<Rightarrow> error + string" where
  "reports_base_url bracket_ok c =
     (case urlparse bracket_ok (base_url c) of
        Inl e \<Rightarrow> Inl e
      | Inr url_tuple \<Rightarrow>
          Inr (urlunparse
                 (url_tuple\<lparr>netloc := replace_first ''api'' ''reports'' (netloc url_tuple)\<rparr>)))"

text \<open>\<^verbatim>\<open>self._defaults[key]\<close> for the two keys the code reads.\<close>

definition default_workspace :: "ClockifyClient \<Rightarrow> error + pyobj" where
  "default_workspace c =
     (case defaults c of None \<Rightarrow> Inl AttributeError | Some d \<Rightarrow> Inr (workspaceId d))"

definition default_user :: "ClockifyClient \<Rightarrow> error + pyobj" where
  "default_user c =
     (case defaults c of None \<Rightarrow> Inl AttributeError | Some d \<Rightarrow> Inr (userId d))"

text \<open>\<^verbatim>\<open>_get_url\<close>. An id given by the caller is a \<^verbatim>\<open>str\<close>; an id left out is the entry of
  \<^verbatim>\<open>_defaults\<close>; either way the f-string formats the value.\<close>

fun get_url ::
  "(string \<Rightarrow> bool) \<Rightarrow> (pyobj \<Rightarrow> string) \<Rightarrow> ClockifyClient \<Rightarrow> string \<Rightarrow>
     url_type option \<Rightarrow> string option \<Rightarrow> string option \<Rightarrow> error + string"
where
  "get_url bracket_ok str_of c endpoint (Some Report) workspace_id user_id =
     (case reports_base_url bracket_ok c of
        Inl e \<Rightarrow> Inl e
      | Inr b \<Rightarrow> Inr (b @ ''/'' @ endpoint))"
| "get_url bracket_ok str_of c endpoint (Some Workspace) workspace_id user_id =
     (case (case workspace_id of None \<Rightarrow> default_workspace c | Some w \<Rightarrow> Inr (PStr w)) of
        Inl e \<Rightarrow> Inl e
      | Inr w \<Rightarrow>
          Inr (base_url c @ ''/workspaces/'' @ format_value str_of w @ ''/'' @ endpoint))"
| "get_url bracket_ok str_of c endpoint (Some Workspace_user) workspace_id user_id =
     (case (case workspace_id of None \<Rightarrow> default_workspace c | Some w \<Rightarrow> Inr (PStr w)) of
        Inl e \<Rightarrow> Inl e
      | Inr w \<Rightarrow>
          (case (case user_id of None \<Rightarrow> default_user c | Some u \<Rightarrow> Inr (PStr u)) of
             Inl e \<Rightarrow> Inl e
           | Inr u \<Rightarrow>
               Inr (base_url c @ ''/workspaces/'' @ format_value str_of w @ ''/user/''
                      @ format_value str_of u @ ''/'' @ endpoint)))"
| "get_url bracket_ok str_of c endpoint None workspace_id user_id =
     Inr (base_url c @ ''/'' @ endpoint)"

subsection \<open>The Clockify client: requests\<close>

datatype http_method = GET | POST | PATCH

record request =
  req_method :: http_method
  req_url :: string
  req_params :: "pyobj option"
  req_data :: "string option"
  req_headers :: "string \<rightharpoonup> string"

record response =
  status_code :: nat
  text_of :: string

text \<open>
  What the client code calls but does not define: the remote service behind
  \<^verbatim>\<open>requests\<close> (\<open>remote\<close>: a request is answered by a response or fails with a transport
  exception, and the state \<open>'s\<close> of everything beyond the client object moves on),
  \<^verbatim>\<open>orjson.loads\<close>, \<^verbatim>\<open>orjson.dumps\<close> with \<^verbatim>\<open>OPT_UTC_Z\<close>, the headers a fresh
  \<^verbatim>\<open>requests.Session\<close> carries, the bracketed-host check of \<^verbatim>\<open>urlparse\<close>, and Python's
  \<^verbatim>\<open>str()\<close> of a value.
\<close>

record 's library =
  remote :: "'s \<Rightarrow> request \<Rightarrow> (error + response) \<times> 's"
  loads :: "string \<Rightarrow> error + pyobj"
  dumps :: "pyobj \<Rightarrow> error + string"
  fresh_session_headers :: "string \<rightharpoonup> string"
  bracket_ok :: "string \<Rightarrow> bool"
  py_str :: "pyobj \<Rightarrow> string"

text \<open>The state the methods run in: the client object, the world beyond it, and the
  requests sent so far, oldest first.\<close>

record 's world =
  client :: ClockifyClient
  server :: 's
  sent :: "request list"

text \<open>One call of \<^verbatim>\<open>self._session.get\<close>, \<^verbatim>\<open>.post\<close> or \<^verbatim>\<open>.patch\<close>.\<close>

definition session_send ::
  "'s library \<Rightarrow> request \<Rightarrow> 's world \<Rightarrow> (error + response) \<times> 's world" where
  "session_send L rq w =
     (fst (remote L (server w) rq),
      w\<lparr>server := snd (remote L (server w) rq), sent := sent w @ [rq]\<rparr>)"

definition get_user :: "'s library \<Rightarrow> 's world \<Rightarrow> (error + pyobj) \<times> 's world" where
  "get_user L w =
     (case get_url (bracket_ok L) (py_str L) (client w) ''user'' None None None of
        Inl e \<Rightarrow> (Inl e, w)
      | Inr url \<Rightarrow>
          (case session_send L
                  \<lparr>req_method = GET, req_url = url, req_params = None, req_data = None,
                   req_headers = session_headers (client w)\<rparr> w of
             (Inl e, w') \<Rightarrow> (Inl e, w')
           | (Inr req, w') \<Rightarrow> (loads L (text_of req), w')))"

definition list_timeentry ::
  "'s library \<Rightarrow> string option \<Rightarrow> string option \<Rightarrow> pyobj option \<Rightarrow> 's world \<Rightarrow>
     (error + pyobj) \<times> 's world" where
  "list_timeentry L workspace_id user_id prms w =
     (case get_url (bracket_ok L) (py_str L) (client w) ''time-entries'' (Some Workspace_user)
             workspace_id user_id of
        Inl e \<Rightarrow> (Inl e, w)
      | Inr url \<Rightarrow>
          (case session_send L
                  \<lparr>req_method = GET, req_url = url, req_params = prms, req_data = None,
                   req_headers = session_headers (client w)\<rparr> w of
             (Inl e, w') \<Rightarrow> (Inl e, w')
           | (Inr req, w') \<Rightarrow> (loads L (text_of req), w')))"

text \<open>\<^verbatim>\<open>body\<close> is \<^verbatim>\<open>None\<close> when omitted, and \<^verbatim>\<open>json.dumps(body)\<close> is evaluated before the
  request is sent.\<close>

definition start_timeentry ::
  "'s library \<Rightarrow> string option \<Rightarrow> pyobj \<Rightarrow> pyobj option \<Rightarrow> 's world \<Rightarrow>
     (error + pyobj) \<times> 's world" where
  "start_timeentry L workspace_id body prms w =
     (case get_url (bracket_ok L) (py_str L) (client w) ''time-entries'' (Some Workspace)
             workspace_id None of
        Inl e \<Rightarrow> (Inl e, w)
      | Inr url \<Rightarrow>
          (case dumps L body of
             Inl e \<Rightarrow> (Inl e, w)
           | Inr d \<Rightarrow>
               (case session_send L
                       \<lparr>req_method = POST, req_url = url, req_params = prms,
                        req_data = Some d, req_headers = session_headers (client w)\<rparr> w of
                  (Inl e, w') \<Rightarrow> (Inl e, w')
                | (Inr req, w') \<Rightarrow> (loads L (text_of req), w'))))"

definition stop_timeentry ::
  "'s library \<Rightarrow> string option \<Rightarrow> string option \<Rightarrow> pyobj \<Rightarrow> pyobj option \<Rightarrow> 's world \<Rightarrow>
     (error + pyobj) \<times> 's world" where
  "stop_timeentry L workspace_id user_id body prms w =
     (case get_url (bracket_ok L) (py_str L) (client w) ''time-entries'' (Some Workspace_user)
             workspace_id user_id of
        Inl e \<Rightarrow> (Inl e, w)
      | Inr url \<Rightarrow>
          (case dumps L body of
             Inl e \<Rightarrow> (Inl e, w)
           | Inr d \<Rightarrow>
               (case session_send L
                       \<lparr>req_method = PATCH, req_url = url, req_params = prms,
                        req_data = Some d, req_headers = session_headers (client w)\<rparr> w of
                  (Inl e, w') \<Rightarrow> (Inl e, w')
                | (Inr req, w') \<Rightarrow> (loads L (text_of req), w'))))"

subsection \<open>The Clockify client: construction\<close>

text \<open>\<^verbatim>\<open>api_key or ""\<close>: \<^verbatim>\<open>None\<close> and the empty string both give the empty string.\<close>

definition key_or_empty :: "string option \<Rightarrow> string" where
  "key_or_empty api_key = (case api_key of None \<Rightarrow> [] | Some k \<Rightarrow> if k = [] then [] else k)"

text \<open>
  \<^verbatim>\<open>ClockifyClient.__init__\<close>. \<open>settings_base_url\<close> is \<^verbatim>\<open>settings.BASE_URL\<close>, \<open>s0\<close> the
  world the new client meets. The result is the error raised or the world with the
  finished client in it. The two entries of \<^verbatim>\<open>_defaults\<close> are read from the user document
  in the order of the dictionary display and stored as they are.
\<close>

definition init ::
  "'s library \<Rightarrow> string \<Rightarrow> string option \<Rightarrow> string option \<Rightarrow> 's \<Rightarrow>
     (error + unit) \<times> 's world" where
  "init L settings_base_url api_key base_url_arg s0 =
     (let b = (case base_url_arg of None \<Rightarrow> settings_base_url | Some u \<Rightarrow> u);
          hs = (fresh_session_headers L)
                 (''X-Api-Key'' \<mapsto> key_or_empty api_key,
                  ''Content-Type'' \<mapsto> ''application/json'');
          w0 = \<lparr>client = \<lparr>session_headers = hs, base_url = b, defaults = None\<rparr>,
                server = s0, sent = []\<rparr>
      in case get_user L w0 of
           (Inl e, w1) \<Rightarrow> (Inl e, w1)
         | (Inr user_data, w1) \<Rightarrow>
             (case subscript user_data ''defaultWorkspace'' of
                Inl e \<Rightarrow> (Inl e, w1)
              | Inr ws \<Rightarrow>
                  (case subscript user_data ''id'' of
                     Inl e \<Rightarrow> (Inl e, w1)
                   | Inr uid \<Rightarrow>
                       (Inr (),
                        w1\<lparr>client := (client w1)
                              \<lparr>defaults := Some \<lparr>workspaceId = ws, userId = uid\<rparr>\<rparr>\<rparr>))))"

text \<open>The four operations as values, and a program that calls them one after the other on
  the same client object, whatever each call returns.\<close>

datatype operation =
    Get_user
  | List_timeentry "string option" "string option" "pyobj option"
  | Start_timeentry "string option" pyobj "pyobj option"
  | Stop_timeentry "string option" "string option" pyobj "pyobj option"

fun call :: "'s library \<Rightarrow> operation \<Rightarrow> 's world \<Rightarrow> (error + pyobj) \<times> 's world" where
  "call L Get_user w = get_user L w"
| "call L (List_timeentry ws us ps) w = list_timeentry L ws us ps w"
| "call L (Start_timeentry ws b ps) w = start_timeentry L ws b ps w"
| "call L (Stop_timeentry ws us b ps) w = stop_timeentry L ws us b ps w"

fun calls :: "'s library \<Rightarrow> operation list \<Rightarrow> 's world \<Rightarrow> 's world" where
  "calls L [] w = w"
| "calls L (x # xs) w = calls L xs (snd (call L x w))"

subsection \<open>Decimal formatting\<close>

text \<open>\<^verbatim>\<open>"%d" % n\<close>, and \<^verbatim>\<open>"%02d" % n\<close>, \<^verbatim>\<open>"%06d" % n\<close> for a number that is not negative.\<close>

fun show_nat :: "nat \<Rightarrow> string" where
  "show_nat n =
     (if n < 10 then [char_of (48 + n)] else show_nat (n div 10) @ [char_of (48 + n mod 10)])"

declare show_nat.simps [simp del]

definition show_int :: "int \<Rightarrow> string" where
  "show_int i = (if i < 0 then ''-'' @ show_nat (nat (- i)) else show_nat (nat i))"

definition show_padded :: "nat \<Rightarrow> int \<Rightarrow> string" where
  "show_padded width i = replicate (width - length (show_int i)) CHR ''0'' @ show_int i"

subsection \<open>Settings: \<^verbatim>\<open>verthandi/config.py\<close>\<close>

record VerthandiSettings =
  BASE_URL :: string
  API_KEY :: "string option"

text \<open>
  The file system as the settings code sees it: the files by path, each with its content
  and whether this process may read and write it, and for a path that holds no file
  whether \<^verbatim>\<open>os.makedirs\<close> of its directory and the creation of the file succeed.
\<close>

record file_entry =
  content :: string
  readable :: bool
  writable :: bool

record filesystem =
  files :: "string \<rightharpoonup> file_entry"
  creatable :: "string \<Rightarrow> bool"

text \<open>\<^verbatim>\<open>open(filepath, "r")\<close> followed by \<^verbatim>\<open>f.read()\<close>.\<close>

definition read_file :: "filesystem \<Rightarrow> string \<Rightarrow> error + string" where
  "read_file fs p =
     (case files fs p of
        None \<Rightarrow> Inl FileNotFoundError
      | Some f \<Rightarrow> if readable f then Inr (content f) else Inl PermissionError)"

text \<open>\<^verbatim>\<open>os.makedirs(filepath.parent, mode=0o775, exist_ok=True)\<close> followed by
  \<^verbatim>\<open>open(filepath, "w")\<close>: the file exists and is empty afterwards.\<close>

definition open_truncate :: "filesystem \<Rightarrow> string \<Rightarrow> error + filesystem" where
  "open_truncate fs p =
     (case files fs p of
        None \<Rightarrow>
          if creatable fs p
          then Inr (fs\<lparr>files := (files fs)(p \<mapsto> \<lparr>content = [], readable = True, writable = True\<rparr>)\<rparr>)
          else Inl PermissionError
      | Some f \<Rightarrow>
          if writable f then Inr (fs\<lparr>files := (files fs)(p \<mapsto> f\<lparr>content := []\<rparr>)\<rparr>)
          else Inl PermissionError)"

text \<open>\<^verbatim>\<open>f.write(data)\<close> on the file just opened.\<close>

definition write_file :: "filesystem \<Rightarrow> string \<Rightarrow> string \<Rightarrow> filesystem" where
  "write_file fs p data =
     (case files fs p of
        None \<Rightarrow> fs
      | Some f \<Rightarrow> fs\<lparr>files := (files fs)(p \<mapsto> f\<lparr>content := data\<rparr>)\<rparr>)"

text \<open>
  The values of a parsed TOML document, as far as \<^verbatim>\<open>pydantic\<close> tells them apart when it
  validates a \<^verbatim>\<open>str\<close> field: a float carries its \<^verbatim>\<open>str()\<close>, and \<open>TOther\<close> stands for
  dates, times, arrays and tables.
\<close>

datatype toml_value =
    TString string
  | TInteger int
  | TBoolean bool
  | TFloat string
  | TOther

text \<open>
  What the settings code calls but does not define: \<^verbatim>\<open>tomlkit.parse\<close>, the way
  \<^verbatim>\<open>tomlkit.dumps\<close> writes a string value as a TOML string literal, the process
  environment with its names in lower case (\<^verbatim>\<open>pydantic.BaseSettings\<close> reads it without
  regard to case), and the path \<^verbatim>\<open>_get_appdirs_path()\<close> returns.
\<close>

record platform =
  toml_parse :: "string \<Rightarrow> error + (string \<times> toml_value) list"
  toml_literal :: "string \<Rightarrow> string"
  environ :: "string \<rightharpoonup> string"
  appdirs_path :: string

text \<open>
  \<^verbatim>\<open>tomlkit.dumps\<close> on a \<^verbatim>\<open>dict\<close> whose values are \<^verbatim>\<open>str\<close> or \<^verbatim>\<open>None\<close>. The library turns
  every value into a TOML item before it writes anything; TOML has no null, and
  \<^verbatim>\<open>tomlkit.items.item(None)\<close> raises \<^verbatim>\<open>ValueError("Invalid type <class 'NoneType'>")\<close>.
  A string value becomes the line \<^verbatim>\<open>key = "literal"\<close>.
\<close>

fun tomlkit_dumps :: "platform \<Rightarrow> (string \<times> string option) list \<Rightarrow> error + string" where
  "tomlkit_dumps P [] = Inr []"
| "tomlkit_dumps P ((k, None) # kvs) = Inl ValueError"
| "tomlkit_dumps P ((k, Some v) # kvs) =
     (case tomlkit_dumps P kvs of
        Inl e \<Rightarrow> Inl e
      | Inr rest \<Rightarrow> Inr (k @ '' = '' @ toml_literal P v @ [CHR 0x0A] @ rest))"

text \<open>\<^verbatim>\<open>self.dict()\<close>: the fields in the order of their declaration.\<close>

definition dict :: "VerthandiSettings \<Rightarrow> (string \<times> string option) list" where
  "dict s = [(''BASE_URL'', Some (BASE_URL s)), (''API_KEY'', API_KEY s)]"

definition to_str :: "platform \<Rightarrow> VerthandiSettings \<Rightarrow> error + string" where
  "to_str P s = tomlkit_dumps P (dict s)"

text \<open>
  \<^verbatim>\<open>pydantic\<close> (version 1) validating a value for a field of type \<^verbatim>\<open>str\<close>: a string is
  kept, a number or a boolean is replaced by its \<^verbatim>\<open>str()\<close>, anything else is refused.
\<close>

fun str_validator :: "toml_value \<Rightarrow> error + string" where
  "str_validator (TString s) = Inr s"
| "str_validator (TInteger i) = Inr (show_int i)"
| "str_validator (TBoolean b) = Inr (if b then ''True'' else ''False'')"
| "str_validator (TFloat s) = Inr s"
| "str_validator TOther = Inl ValidationError"

text \<open>
  \<^verbatim>\<open>cls.parse_obj(data)\<close>, that is \<^verbatim>\<open>cls(**data)\<close> of a \<^verbatim>\<open>BaseSettings\<close> class: a key that
  is no field is refused (\<^verbatim>\<open>extra = forbid\<close>); a field takes the value given for it, else
  the environment variable of its name, else its declared default.
\<close>

definition parse_obj :: "platform \<Rightarrow> (string \<times> toml_value) list \<Rightarrow> error + VerthandiSettings" where
  "parse_obj P data =
     (if \<not> list_all (\<lambda>k. k = ''BASE_URL'' \<or> k = ''API_KEY'') (map fst data)
      then Inl ValidationError
      else
        case (case map_of data ''BASE_URL'' of
                Some v \<Rightarrow> str_validator v
              | None \<Rightarrow>
                  (case environ P ''base_url'' of
                     Some v \<Rightarrow> Inr v
                   | None \<Rightarrow> Inr ''https://api.clockify.me/api/v1'')) of
          Inl e \<Rightarrow> Inl e
        | Inr b \<Rightarrow>
            (case (case map_of data ''API_KEY'' of
                     Some v \<Rightarrow> map_sum id Some (str_validator v)
                   | None \<Rightarrow> Inr (environ P ''api_key'')) of
               Inl e \<Rightarrow> Inl e
             | Inr k \<Rightarrow> Inr \<lparr>BASE_URL = b, API_KEY = k\<rparr>))"

text \<open>\<^verbatim>\<open>cls()\<close>: the settings built from the environment and the declared defaults.\<close>

definition new_settings :: "platform \<Rightarrow> VerthandiSettings" where
  "new_settings P =
     \<lparr>BASE_URL = (case environ P ''base_url'' of
                    Some v \<Rightarrow> v | None \<Rightarrow> ''https://api.clockify.me/api/v1''),
      API_KEY = environ P ''api_key''\<rparr>"

text \<open>\<^verbatim>\<open>save\<close>: the file is opened for writing, and so emptied, before \<^verbatim>\<open>self.to_str()\<close>
  is evaluated.\<close>

definition save ::
  "platform \<Rightarrow> VerthandiSettings \<Rightarrow> string option \<Rightarrow> filesystem \<Rightarrow> (error + unit) \<times> filesystem"
where
  "save P s filepath fs =
     (let p = (case filepath of None \<Rightarrow> appdirs_path P | Some q \<Rightarrow> q)
      in case open_truncate fs p of
           Inl e \<Rightarrow> (Inl e, fs)
         | Inr fs1 \<Rightarrow>
             (case to_str P s of
                Inl e \<Rightarrow> (Inl e, fs1)
              | Inr data \<Rightarrow> (Inr (), write_file fs1 p data)))"

text \<open>The body of the \<^verbatim>\<open>try\<close> statement of \<^verbatim>\<open>load\<close>.\<close>

definition load_try :: "platform \<Rightarrow> string \<Rightarrow> filesystem \<Rightarrow> error + VerthandiSettings" where
  "load_try P p fs =
     (case read_file fs p of
        Inl e \<Rightarrow> Inl e
      | Inr txt \<Rightarrow>
          (case toml_parse P txt of
             Inl e \<Rightarrow> Inl e
           | Inr data \<Rightarrow> parse_obj P data))"

definition load ::
  "platform \<Rightarrow> string option \<Rightarrow> filesystem \<Rightarrow> (error + VerthandiSettings) \<times> filesystem"
where
  "load P filepath fs =
     (let p = (case filepath of None \<Rightarrow> appdirs_path P | Some q \<Rightarrow> q)
      in case load_try P p fs of
           Inr s \<Rightarrow> (Inr s, fs)
         | Inl e \<Rightarrow>
             if e = PermissionError \<or> e = FileNotFoundError then
               (let settings0 = new_settings P
                in case save P settings0 None fs of
                     (Inl e', fs') \<Rightarrow> (Inl e', fs')
                   | (Inr u, fs') \<Rightarrow> (Inr settings0, fs'))
             else (Inl e, fs))"

subsection \<open>Elapsed time: \<^verbatim>\<open>get_timedelta\<close> of \<^verbatim>\<open>verthandi/cli/main.py\<close>\<close>

text \<open>
  A \<^verbatim>\<open>datetime\<close> is a number of microseconds since the epoch, in UTC when it is aware of
  its time zone. A \<^verbatim>\<open>timedelta\<close> is normalised to days, seconds below 86400 and
  microseconds below one million.
\<close>

datatype datetime = Naive int | Aware int

record timedelta =
  days :: int
  seconds :: int
  microseconds :: int

definition timedelta_of :: "int \<Rightarrow> timedelta" where
  "timedelta_of us =
     \<lparr>days = us div 86400000000,
      seconds = (us mod 86400000000) div 1000000,
      microseconds = us mod 1000000\<rparr>"

text \<open>\<^verbatim>\<open>a - b\<close> on two \<^verbatim>\<open>datetime\<close>s: naive and aware ones do not mix.\<close>

fun datetime_sub :: "datetime \<Rightarrow> datetime \<Rightarrow> error + timedelta" where
  "datetime_sub (Aware a) (Aware b) = Inr (timedelta_of (a - b))"
| "datetime_sub (Naive a) (Naive b) = Inr (timedelta_of (a - b))"
| "datetime_sub _ _ = Inl TypeError"

text \<open>\<^verbatim>\<open>timedelta.__str__\<close> of CPython's \<^verbatim>\<open>datetime\<close> module.\<close>

definition str_timedelta :: "timedelta \<Rightarrow> string" where
  "str_timedelta td =
     (let mm = seconds td div 60; ss = seconds td mod 60;
          hh = mm div 60; mm' = mm mod 60;
          s = show_int hh @ '':'' @ show_padded 2 mm' @ '':'' @ show_padded 2 ss;
          s1 = (if days td \<noteq> 0
                then show_int (days td) @ '' day'' @ (if \<bar>days td\<bar> \<noteq> 1 then ''s'' else [])
                       @ '', '' @ s
                else s)
      in if microseconds td \<noteq> 0 then s1 @ ''.'' @ show_padded 6 (microseconds td) else s1)"

text \<open>
  \<^verbatim>\<open>get_timedelta\<close>. \<open>clock\<close> is the reading of \<^verbatim>\<open>datetime.now(timezone.utc)\<close> in
  microseconds, which \<^verbatim>\<open>replace(microsecond=0)\<close> cuts down to the whole second;
  \<open>dt_parse\<close> is \<^verbatim>\<open>dateutil.parser.parse\<close>.
\<close>

definition get_timedelta :: "(string \<Rightarrow> error + datetime) \<Rightarrow> int \<Rightarrow> string \<Rightarrow> error + string" where
  "get_timedelta dt_parse clock dts_1 =
     (let now = Aware (clock - clock mod 1000000)
      in case dt_parse dts_1 of
           Inl e \<Rightarrow> Inl e
         | Inr dt_1 \<Rightarrow>
             (case datetime_sub now dt_1 of
                Inl e \<Rightarrow> Inl e
              | Inr td \<Rightarrow> Inr (str_timedelta td)))"

text \<open>The format the documentation names, hours:minutes:seconds, for a number of seconds:
  the hours, then minutes and seconds with two digits each.\<close>

definition hours_minutes_seconds :: "int \<Rightarrow> string" where
  "hours_minutes_seconds n =
     show_int (n div 3600) @ '':'' @ show_padded 2 ((n div 60) mod 60) @ '':''
       @ show_padded 2 (n mod 60)"

subsection \<open>Specifications and sample data\<close>

text \<open>
  An operation that is a single HTTP call: it sends the request \<open>rq\<close> and nothing else,
  and its result is the transport's exception, or what \<^verbatim>\<open>orjson.loads\<close> makes of the
  body of the response, be that a document or the decoder's exception.
\<close>

definition one_call :: "'s library \<Rightarrow> request \<Rightarrow> 's world \<Rightarrow> (error + pyobj) \<times> 's world" where
  "one_call L rq w =
     ((case fst (remote L (server w) rq) of Inl e \<Rightarrow> Inl e | Inr r \<Rightarrow> loads L (text_of r)),
      w\<lparr>server := snd (remote L (server w) rq), sent := sent w @ [rq]\<rparr>)"

text \<open>A service that answers every request with the same user document, and a decoder
  that knows this one document.\<close>

definition demo_library :: "unit library" where
  "demo_library =
     \<lparr>remote = (\<lambda>s rq. (Inr \<lparr>status_code = 200, text_of = ''{user}''\<rparr>, s)),
      loads = (\<lambda>t. if t = ''{user}''
                    then Inr (PDict [(''id'', PStr ''u1''), (''defaultWorkspace'', PStr ''w1'')])
                    else Inl JSONDecodeError),
      dumps = (\<lambda>b. Inr ''{body}''),
      fresh_session_headers = [''Accept'' \<mapsto> ''*/*''],
      bracket_ok = (\<lambda>h. True),
      py_str = (\<lambda>v. ''?'')\<rparr>"

definition demo_world :: "unit world" where
  "demo_world =
     \<lparr>client = \<lparr>session_headers = [''X-Api-Key'' \<mapsto> ''k''],
                base_url = ''https://api.example.com/v1'',
                defaults = Some \<lparr>workspaceId = PStr ''w1'', userId = PStr ''u1''\<rparr>\<rparr>,
      server = (), sent = []\<rparr>"

text \<open>The world right after the sample client was constructed with the key \<^verbatim>\<open>k\<close>.\<close>

definition demo_client_world :: "unit world" where
  "demo_client_world =
     \<lparr>client = \<lparr>session_headers =
                  [''Accept'' \<mapsto> ''*/*'', ''X-Api-Key'' \<mapsto> ''k'',
                   ''Content-Type'' \<mapsto> ''application/json''],
                base_url = ''https://api.example.com/v1'',
                defaults = Some \<lparr>workspaceId = PStr ''w1'', userId = PStr ''u1''\<rparr>\<rparr>,
      server = (),
      sent = [\<lparr>req_method = GET, req_url = ''https://api.example.com/v1/user'',
               req_params = None, req_data = None,
               req_headers = [''Accept'' \<mapsto> ''*/*'', ''X-Api-Key'' \<mapsto> ''k'',
                   ''Content-Type'' \<mapsto> ''application/json'']\<rparr>]\<rparr>"

text \<open>A sample platform: the configuration path of a Linux user, a parser that knows the
  empty document and one settings file, and string literals written between angle
  brackets; the environment is left open.\<close>

definition demo_path :: string where
  "demo_path = ''/home/user/.config/Verthandi/verthandi.toml''"

definition demo_toml :: string where
  "demo_toml = ''BASE_URL = <https://api.example.com/v1>'' @ [CHR 0x0A]
               @ ''API_KEY = <k>'' @ [CHR 0x0A]"

definition demo_platform :: "(string \<rightharpoonup> string) \<Rightarrow> platform" where
  "demo_platform env =
     \<lparr>toml_parse = (\<lambda>t. if t = [] then Inr []
                         else if t = demo_toml
                         then Inr [(''BASE_URL'', TString ''https://api.example.com/v1''),
                                   (''API_KEY'', TString ''k'')]
                         else Inl ValueError),
      toml_literal = (\<lambda>v. ''<'' @ v @ ''>''),
      environ = env,
      appdirs_path = demo_path\<rparr>"

definition empty_disk :: filesystem where
  "empty_disk = \<lparr>files = Map.empty, creatable = (\<lambda>p. True)\<rparr>"

text \<open>A disk that holds the sample settings file, read-only.\<close>

definition demo_disk :: filesystem where
  "demo_disk =
     \<lparr>files = [demo_path \<mapsto> \<lparr>content = demo_toml, readable = True, writable = False\<rparr>],
      creatable = (\<lambda>p. False)\<rparr>"

section \<open>Properties\<close>

subsection \<open>Helper lemmas\<close>

lemma call_client: "client (snd (call L x w)) = client w"
  by (cases x)
     (auto simp: get_user_def list_timeentry_def start_timeentry_def stop_timeentry_def
        session_send_def split: sum.splits prod.splits)

lemma calls_client: "client (calls L xs w) = client w"
  by (induction xs arbitrary: w) (simp_all add: call_client)

lemma get_user_one_call:
  "get_user L w =
     one_call L \<lparr>req_method = GET, req_url = base_url (client w) @ ''/user'',
                 req_params = None, req_data = None,
                 req_headers = session_headers (client w)\<rparr> w"
  by (simp add: get_user_def one_call_def session_send_def split: sum.splits)

lemma list_timeentry_one_call:
  "defaults (client w) = Some d \<Longrightarrow>
   list_timeentry L W U ps w =
     one_call L \<lparr>req_method = GET,
                 req_url = base_url (client w) @ ''/workspaces/''
                   @ (case W of None \<Rightarrow> format_value (py_str L) (workspaceId d)
                      | Some x \<Rightarrow> x) @ ''/user/''
                   @ (case U of None \<Rightarrow> format_value (py_str L) (userId d)
                      | Some x \<Rightarrow> x) @ ''/time-entries'',
                 req_params = ps, req_data = None,
                 req_headers = session_headers (client w)\<rparr> w"
  by (cases W; cases U)
     (auto simp: list_timeentry_def one_call_def session_send_def default_workspace_def
        default_user_def format_value_def split: sum.splits)

lemma start_timeentry_one_call:
  "defaults (client w) = Some d \<Longrightarrow> dumps L body = Inr dat \<Longrightarrow>
   start_timeentry L W body ps w =
     one_call L \<lparr>req_method = POST,
                 req_url = base_url (client w) @ ''/workspaces/''
                   @ (case W of None \<Rightarrow> format_value (py_str L) (workspaceId d)
                      | Some x \<Rightarrow> x) @ ''/time-entries'',
                 req_params = ps, req_data = Some dat,
                 req_headers = session_headers (client w)\<rparr> w"
  by (cases W)
     (auto simp: start_timeentry_def one_call_def session_send_def default_workspace_def
        format_value_def split: sum.splits)

lemma stop_timeentry_one_call:
  "defaults (client w) = Some d \<Longrightarrow> dumps L body = Inr dat \<Longrightarrow>
   stop_timeentry L W U body ps w =
     one_call L \<lparr>req_method = PATCH,
                 req_url = base_url (client w) @ ''/workspaces/''
                   @ (case W of None \<Rightarrow> format_value (py_str L) (workspaceId d)
                      | Some x \<Rightarrow> x) @ ''/user/''
                   @ (case U of None \<Rightarrow> format_value (py_str L) (userId d)
                      | Some x \<Rightarrow> x) @ ''/time-entries'',
                 req_params = ps, req_data = Some dat,
                 req_headers = session_headers (client w)\<rparr> w"
  by (cases W; cases U)
     (auto simp: stop_timeentry_def one_call_def session_send_def default_workspace_def
        default_user_def format_value_def split: sum.splits)

lemma init_sent:
  "sent (snd (init L sb api_key bu s0)) =
     [\<lparr>req_method = GET, req_url = (case bu of None \<Rightarrow> sb | Some u \<Rightarrow> u) @ ''/user'',
       req_params = None, req_data = None,
       req_headers = (fresh_session_headers L)
          (''X-Api-Key'' \<mapsto> key_or_empty api_key, ''Content-Type'' \<mapsto> ''application/json'')\<rparr>]"
  by (simp add: init_def get_user_one_call one_call_def Let_def split: sum.splits)

lemma init_headers:
  "session_headers (client (snd (init L sb api_key bu s0))) =
     (fresh_session_headers L)
          (''X-Api-Key'' \<mapsto> key_or_empty api_key, ''Content-Type'' \<mapsto> ''application/json'')"
  by (simp add: init_def get_user_one_call one_call_def Let_def split: sum.splits)

lemma init_success:
  assumes "init L sb k bu s0 = (Inr (), w)"
  shows "\<exists>resp ud ws uid.
           remote L s0
              \<lparr>req_method = GET, req_url = (case bu of None \<Rightarrow> sb | Some u \<Rightarrow> u) @ ''/user'',
               req_params = None, req_data = None,
               req_headers = (fresh_session_headers L)
                 (''X-Api-Key'' \<mapsto> key_or_empty k, ''Content-Type'' \<mapsto> ''application/json'')\<rparr>
             = (Inr resp, server w)
         \<and> loads L (text_of resp) = Inr ud
         \<and> subscript ud ''defaultWorkspace'' = Inr ws
         \<and> subscript ud ''id'' = Inr uid
         \<and> defaults (client w) = Some \<lparr>workspaceId = ws, userId = uid\<rparr>
         \<and> base_url (client w) = (case bu of None \<Rightarrow> sb | Some u \<Rightarrow> u)"
  using assms
  by (auto simp: init_def get_user_one_call one_call_def Let_def prod_eq_iff
      split: sum.splits)

lemma demo_init:
  "init demo_library ''https://api.example.com/v1'' (Some ''k'') None () =
     (Inr (), demo_client_world)"
  by (simp add: init_def get_user_def session_send_def demo_library_def Let_def
      key_or_empty_def demo_client_world_def)

lemma to_str_none: "API_KEY s = None \<Longrightarrow> to_str P s = Inl ValueError"
  by (simp add: to_str_def dict_def)

lemma to_str_some:
  "API_KEY s = Some k \<Longrightarrow>
   to_str P s = Inr (''BASE_URL = '' @ toml_literal P (BASE_URL s) @ [CHR 0x0A]
                     @ ''API_KEY = '' @ toml_literal P k @ [CHR 0x0A])"
  by (simp add: to_str_def dict_def)

lemma save_frame:
  "q \<noteq> (case filepath of None \<Rightarrow> appdirs_path P | Some r \<Rightarrow> r) \<Longrightarrow>
   files (snd (save P s filepath fs)) q = files fs q"
  by (auto simp: save_def open_truncate_def write_file_def Let_def
      split: sum.splits option.splits if_splits)

lemma save_content:
  "save P s filepath fs = (Inr u, fs') \<Longrightarrow>
   \<exists>f. files fs' (case filepath of None \<Rightarrow> appdirs_path P | Some r \<Rightarrow> r) = Some f
      \<and> to_str P s = Inr (content f)"
  by (auto simp: save_def open_truncate_def write_file_def Let_def
      split: sum.splits option.splits if_splits)

lemma load_fallback:
  "read_file fs p = Inl FileNotFoundError \<or> read_file fs p = Inl PermissionError \<Longrightarrow>
   load P (Some p) fs =
     (map_sum id (\<lambda>u. new_settings P) (fst (save P (new_settings P) None fs)),
      snd (save P (new_settings P) None fs))"
  by (auto simp: load_def load_try_def Let_def split: sum.splits prod.splits)

lemma demo_platform_simps:
  "environ (demo_platform e) = e"
  "appdirs_path (demo_platform e) = demo_path"
  "toml_parse (demo_platform e) [] = Inr []"
  "toml_literal (demo_platform e) v = ''<'' @ v @ ''>''"
  by (simp_all add: demo_platform_def)

lemma load_missing_no_key:
  assumes "files fs (appdirs_path P) = None" and "creatable fs (appdirs_path P)"
    and "environ P ''api_key'' = None"
  shows "load P None fs =
           (Inl ValueError,
            fs\<lparr>files := (files fs)(appdirs_path P \<mapsto>
                   \<lparr>content = [], readable = True, writable = True\<rparr>)\<rparr>)"
proof -
  have "load_try P (appdirs_path P) fs = Inl FileNotFoundError"
    using assms(1) by (simp add: load_try_def read_file_def)
  moreover have "to_str P (new_settings P) = Inl ValueError"
    using assms(3) by (simp add: to_str_none new_settings_def)
  moreover have "open_truncate fs (appdirs_path P) =
      Inr (fs\<lparr>files := (files fs)(appdirs_path P \<mapsto>
                   \<lparr>content = [], readable = True, writable = True\<rparr>)\<rparr>)"
    using assms(1,2) by (simp add: open_truncate_def)
  ultimately show ?thesis
    by (simp add: load_def save_def)
qed

lemma load_empty_file:
  assumes "read_file fs (appdirs_path P) = Inr []" and "toml_parse P [] = Inr []"
  shows "load P None fs = (Inr (new_settings P), fs)"
proof -
  have "parse_obj P [] = Inr (new_settings P)"
    by (simp add: parse_obj_def new_settings_def split: option.splits)
  then have "load_try P (appdirs_path P) fs = Inr (new_settings P)"
    using assms by (simp add: load_try_def)
  then show ?thesis by (simp add: load_def)
qed

lemma first_run:
  "load (demo_platform Map.empty) None empty_disk =
     (Inl ValueError,
      empty_disk\<lparr>files := [demo_path \<mapsto> \<lparr>content = [], readable = True, writable = True\<rparr>]\<rparr>)"
  using load_missing_no_key [of empty_disk "demo_platform Map.empty"]
  by (simp add: demo_platform_simps empty_disk_def)

lemma parse_obj_schema:
  assumes "list_all (\<lambda>k. k = ''BASE_URL'' \<or> k = ''API_KEY'') (map fst data)"
    and "map_of data ''BASE_URL'' = Some (TString b)"
    and "map_of data ''API_KEY'' = map_option TString ko"
  shows "parse_obj P data =
           Inr \<lparr>BASE_URL = b,
                API_KEY = (case ko of Some k \<Rightarrow> Some k | None \<Rightarrow> environ P ''api_key'')\<rparr>"
  using assms by (cases ko) (simp_all add: parse_obj_def)

lemma demo_parse:
  "toml_parse (demo_platform e) demo_toml =
     Inr [(''BASE_URL'', TString ''https://api.example.com/v1''), (''API_KEY'', TString ''k'')]"
  by (simp add: demo_platform_def) (simp add: demo_toml_def)

lemma seconds_split:
  fixes n :: int
  shows "n div 60 div 60 = n div 3600"
  by (simp add: zdiv_zmult2_eq [symmetric])

lemma str_timedelta_no_days:
  "str_timedelta \<lparr>days = 0, seconds = n, microseconds = 0\<rparr> = hours_minutes_seconds n"
  by (simp add: str_timedelta_def hours_minutes_seconds_def Let_def seconds_split)

lemma str_timedelta_with_days:
  "1 \<le> k \<Longrightarrow>
   str_timedelta \<lparr>days = k, seconds = n, microseconds = 0\<rparr> =
     show_int k @ (if k = 1 then '' day, '' else '' days, '') @ hours_minutes_seconds n"
  by (simp add: str_timedelta_def hours_minutes_seconds_def Let_def seconds_split)

lemma timedelta_same_day:
  assumes "0 \<le> d" and "d < 86400000000" and "d mod 1000000 = 0"
  shows "timedelta_of d = \<lparr>days = 0, seconds = d div 1000000, microseconds = 0\<rparr>"
proof -
  have "d div 86400000000 = 0" using assms(1,2) by (rule div_pos_pos_trivial)
  moreover have "d mod 86400000000 = d" using assms(1,2) by (rule mod_pos_pos_trivial)
  ultimately show ?thesis
    unfolding timedelta_of_def using assms(3) by simp
qed

lemma day_seconds:
  fixes d :: int
  shows "(d mod 86400000000) div 1000000 = (d div 1000000) mod 86400"
proof -
  have "d mod (1000000 * 86400) = 1000000 * (d div 1000000 mod 86400) + d mod 1000000"
    by (rule zmod_zmult2_eq) simp
  then have "(d mod 86400000000) div 1000000 =
      (1000000 * (d div 1000000 mod 86400) + d mod 1000000) div 1000000"
    by simp
  also have "\<dots> = d div 1000000 mod 86400"
    by simp
  finally show ?thesis .
qed

lemma timedelta_whole_seconds:
  assumes "d mod 1000000 = 0"
  shows "timedelta_of d =
           \<lparr>days = d div 86400000000, seconds = (d div 1000000) mod 86400, microseconds = 0\<rparr>"
  unfolding timedelta_of_def day_seconds using assms by simp

lemma get_timedelta_aware:
  "dt_parse s = Inr (Aware t) \<Longrightarrow>
   get_timedelta dt_parse clock s =
     Inr (str_timedelta (timedelta_of (clock - clock mod 1000000 - t)))"
  by (simp add: get_timedelta_def)

lemma hms_value: "hours_minutes_seconds 3723 = ''1:02:03''"
  by code_simp

lemma scheme_char_plain:
  "c \<in> set scheme_chars \<Longrightarrow> \<not> unsafe_url_byte c \<and> c \<noteq> CHR '':''"
  by (auto simp: scheme_chars_def unsafe_url_byte_def)

lemma alpha_not_space: "is_ascii_alpha c \<Longrightarrow> \<not> c0_control_or_space c"
  by (auto simp: is_ascii_alpha_def c0_control_or_space_def Let_def)

lemma replace_first_nonempty: "s \<noteq> [] \<Longrightarrow> new \<noteq> [] \<Longrightarrow> replace_first old new s \<noteq> []"
  by (cases s) auto

lemma takeWhile_stop:
  assumes "\<And>x. x \<in> set xs \<Longrightarrow> P x" and "ys = [] \<or> \<not> P (hd ys)"
  shows "takeWhile P (xs @ ys) = xs" and "dropWhile P (xs @ ys) = ys"
proof -
  have "takeWhile P ys = []" and "dropWhile P ys = ys"
    using assms(2) by (cases ys; auto)+
  then show "takeWhile P (xs @ ys) = xs" and "dropWhile P (xs @ ys) = ys"
    using assms(1) by (simp_all add: takeWhile_append2 dropWhile_append2)
qed

lemma urlsplit_hierarchical:
  assumes s1: "sch \<noteq> []" and s2: "is_ascii_alpha (hd sch)"
    and s3: "list_all (\<lambda>c. c \<in> set scheme_chars) sch"
    and n1: "list_all (\<lambda>c. c \<notin> set ''/?#[]'' \<and> \<not> unsafe_url_byte c) nl"
    and p1: "pth = [] \<or> hd pth = CHR ''/''"
    and p2: "list_all (\<lambda>c. c \<notin> set ''?#;'' \<and> \<not> unsafe_url_byte c) pth"
  shows "urlsplit bo (sch @ ''://'' @ nl @ pth) =
           Inr \<lparr>scheme = map lower_char sch, netloc = nl, path = pth, params = [],
                query = [], fragment = []\<rparr>"
proof -
  define v where "v = ''//'' @ nl @ pth"
  define u where "u = sch @ '':'' @ v"
  have u_eq: "sch @ ''://'' @ nl @ pth = u"
    by (simp add: u_def v_def)
  have sch_ok: "\<And>c. c \<in> set sch \<Longrightarrow> \<not> unsafe_url_byte c \<and> c \<noteq> CHR '':''"
    using s3 scheme_char_plain by (auto simp: list_all_iff)
  have nl_ok: "\<And>c. c \<in> set nl \<Longrightarrow> c \<notin> set ''/?#[]'' \<and> \<not> unsafe_url_byte c"
    using n1 by (auto simp: list_all_iff)
  have pth_ok: "\<And>c. c \<in> set pth \<Longrightarrow> c \<notin> set ''?#;'' \<and> \<not> unsafe_url_byte c"
    using p2 by (auto simp: list_all_iff)
  have hd_u: "hd u = hd sch"
    using s1 by (simp add: u_def)
  have f1: "dropWhile c0_control_or_space u = u"
    using s1 s2 alpha_not_space [of "hd sch"] by (cases sch) (simp_all add: u_def)
  have f2: "filter (\<lambda>c. \<not> unsafe_url_byte c) u = u"
    unfolding filter_id_conv u_def v_def
    using sch_ok nl_ok pth_ok by (auto simp: unsafe_url_byte_def)
  have f3: "takeWhile (\<lambda>x. x \<noteq> CHR '':'') u = sch"
    unfolding u_def using sch_ok by (simp add: takeWhile_append2)
  have f4: "CHR '':'' \<in> set u"
    by (simp add: u_def)
  have f5: "drop (Suc (length sch)) u = v"
    by (simp add: u_def)
  have f6: "take 2 v = ''//''"
    by (simp add: v_def)
  have f7: "splitnetloc v = (nl, pth)"
  proof -
    have "drop 2 v = nl @ pth" by (simp add: v_def)
    moreover have "pth = [] \<or> \<not> (hd pth \<notin> set ''/?#'')"
      using p1 by auto
    ultimately show ?thesis
      using takeWhile_stop [of nl "\<lambda>x. x \<notin> set ''/?#''" pth] nl_ok
      by (simp add: splitnetloc_def Let_def)
  qed
  have f8: "CHR ''['' \<notin> set nl" "CHR '']'' \<notin> set nl"
    using nl_ok by auto
  have f9: "CHR ''#'' \<notin> set pth" "CHR ''?'' \<notin> set pth"
    using pth_ok by auto
  have f0: "\<not> unsafe_url_byte CHR '':''"
    by (simp add: unsafe_url_byte_def)
  show ?thesis
    unfolding u_eq urlsplit_def
    by (simp add: Let_def f0 f1 f2 f3 f4 f5 f6 f7 f8 f9 hd_u s1 s2 s3)
qed

lemma urlparse_hierarchical:
  assumes "sch \<noteq> []" and "is_ascii_alpha (hd sch)"
    and "list_all (\<lambda>c. c \<in> set scheme_chars) sch"
    and "list_all (\<lambda>c. c \<notin> set ''/?#[]'' \<and> \<not> unsafe_url_byte c) nl"
    and "pth = [] \<or> hd pth = CHR ''/''"
    and "list_all (\<lambda>c. c \<notin> set ''?#;'' \<and> \<not> unsafe_url_byte c) pth"
  shows "urlparse bo (sch @ ''://'' @ nl @ pth) =
           Inr \<lparr>scheme = map lower_char sch, netloc = nl, path = pth, params = [],
                query = [], fragment = []\<rparr>"
proof -
  have "CHR '';'' \<notin> set pth"
    using assms(6) by (auto simp: list_all_iff)
  then show ?thesis
    unfolding urlparse_def urlsplit_hierarchical [OF assms] by simp
qed

lemma urlunparse_hierarchical:
  assumes "sch \<noteq> []" and "nl \<noteq> []" and "pth = [] \<or> hd pth = CHR ''/''"
  shows "urlunparse \<lparr>scheme = sch, netloc = nl, path = pth, params = [],
                      query = [], fragment = []\<rparr> = sch @ ''://'' @ nl @ pth"
proof -
  have "\<not> (pth \<noteq> [] \<and> take 1 pth \<noteq> ''/'')"
    using assms(3) by (cases pth) auto
  then show ?thesis
    using assms(1,2) by (simp add: urlunparse_def urlunsplit_def)
qed

lemma save_no_key:
  assumes "files fs (appdirs_path P) = None" and "creatable fs (appdirs_path P)"
    and "API_KEY s = None"
  shows "save P s None fs =
           (Inl ValueError,
            fs\<lparr>files := (files fs)(appdirs_path P \<mapsto>
                   \<lparr>content = [], readable = True, writable = True\<rparr>)\<rparr>)"
  using assms by (simp add: save_def open_truncate_def to_str_none)

text \<open>Where the fallback of \<^verbatim>\<open>load\<close> writes: \<^verbatim>\<open>save\<close> is called with no path, so no path but
  the default one changes, whatever path \<^verbatim>\<open>load\<close> was given.\<close>

lemma load_fallback_default_path:
  assumes "p \<noteq> appdirs_path P"
    and "read_file fs p = Inl FileNotFoundError \<or> read_file fs p = Inl PermissionError"
  shows "load P (Some p) fs =
           (map_sum id (\<lambda>u. new_settings P) (fst (save P (new_settings P) None fs)),
            snd (save P (new_settings P) None fs))
       \<and> files (snd (load P (Some p) fs)) p = files fs p
       \<and> (\<forall>q. q \<noteq> appdirs_path P \<longrightarrow> files (snd (load P (Some p) fs)) q = files fs q)
       \<and> (\<forall>s. fst (load P (Some p) fs) = Inr s \<longrightarrow>
            s = new_settings P
          \<and> (\<exists>f. files (snd (load P (Some p) fs)) (appdirs_path P) = Some f
                \<and> to_str P s = Inr (content f)))"
proof -
  have eq: "load P (Some p) fs =
           (map_sum id (\<lambda>u. new_settings P) (fst (save P (new_settings P) None fs)),
            snd (save P (new_settings P) None fs))"
    using assms(2) by (rule load_fallback)
  have frame: "files (snd (load P (Some p) fs)) q = files fs q" if "q \<noteq> appdirs_path P" for q
    using that save_frame [where q = q and filepath = None and P = P and s = "new_settings P" and fs = fs]
    by (simp add: eq)
  have ret: "s = new_settings P
          \<and> (\<exists>f. files (snd (load P (Some p) fs)) (appdirs_path P) = Some f
                \<and> to_str P s = Inr (content f))"
    if "fst (load P (Some p) fs) = Inr s" for s
  proof -
    obtain r fs' where sv: "save P (new_settings P) None fs = (r, fs')"
      by (cases "save P (new_settings P) None fs")
    with that eq obtain u where r: "r = Inr u" and s: "s = new_settings P"
      by (cases r) auto
    from save_content [where P = P and s = "new_settings P" and filepath = None and fs = fs
        and u = u and fs' = fs'] sv r
    show ?thesis by (simp add: eq s)
  qed
  show ?thesis
    using eq frame [OF assms(1)] frame ret by blast
qed

lemma explicit_path_first_run:
  "load (demo_platform Map.empty) (Some ''my.toml'') empty_disk =
     (Inl ValueError,
      empty_disk\<lparr>files := [demo_path \<mapsto> \<lparr>content = [], readable = True, writable = True\<rparr>]\<rparr>)"
proof -
  let ?P = "demo_platform Map.empty"
  have "read_file empty_disk ''my.toml'' = Inl FileNotFoundError
      \<or> read_file empty_disk ''my.toml'' = Inl PermissionError"
    by (simp add: read_file_def empty_disk_def)
  then have "load ?P (Some ''my.toml'') empty_disk =
      (map_sum id (\<lambda>u. new_settings ?P) (fst (save ?P (new_settings ?P) None empty_disk)),
       snd (save ?P (new_settings ?P) None empty_disk))"
    by (rule load_fallback)
  moreover have "save ?P (new_settings ?P) None empty_disk =
      (Inl ValueError,
       empty_disk\<lparr>files := (files empty_disk)(appdirs_path ?P \<mapsto>
              \<lparr>content = [], readable = True, writable = True\<rparr>)\<rparr>)"
    by (rule save_no_key) (simp_all add: empty_disk_def new_settings_def demo_platform_simps)
  ultimately show ?thesis
    by (simp add: demo_platform_simps) (simp add: empty_disk_def)
qed

text \<open>The rendering of an elapsed time of whole seconds, by its size.\<close>

lemma get_timedelta_rendering:
  assumes "dt_parse s = Inr (Aware t)"
    and "d = clock - clock mod 1000000 - t"
    and "d mod 1000000 = 0"
  shows "(d = 3723000000 \<longrightarrow> get_timedelta dt_parse clock s = Inr ''1:02:03'')
       \<and> (0 \<le> d \<and> d < 86400000000 \<longrightarrow>
            get_timedelta dt_parse clock s = Inr (hours_minutes_seconds (d div 1000000)))
       \<and> (86400000000 \<le> d \<longrightarrow>
            get_timedelta dt_parse clock s =
              Inr (show_int (d div 86400000000)
                     @ (if d div 86400000000 = 1 then '' day, '' else '' days, '')
                     @ hours_minutes_seconds ((d div 1000000) mod 86400)))"
proof -
  have g: "get_timedelta dt_parse clock s = Inr (str_timedelta (timedelta_of d))"
    using assms(1,2) by (simp add: get_timedelta_aware)
  have same: "get_timedelta dt_parse clock s = Inr (hours_minutes_seconds (d div 1000000))"
    if "0 \<le> d" and "d < 86400000000"
    using that assms(3) by (simp add: g timedelta_same_day str_timedelta_no_days)
  have days: "get_timedelta dt_parse clock s =
              Inr (show_int (d div 86400000000)
                     @ (if d div 86400000000 = 1 then '' day, '' else '' days, '')
                     @ hours_minutes_seconds ((d div 1000000) mod 86400))"
    if "86400000000 \<le> d"
  proof -
    have "1 \<le> d div 86400000000"
      using that by (simp add: pos_imp_zdiv_pos_iff)
    then show ?thesis
      by (simp only: g timedelta_whole_seconds [OF assms(3)] str_timedelta_with_days)
  qed
  have exact: "get_timedelta dt_parse clock s = Inr ''1:02:03''" if "d = 3723000000"
  proof -
    have "get_timedelta dt_parse clock s = Inr (hours_minutes_seconds (3723000000 div 1000000))"
      using same that by simp
    then show ?thesis by (simp add: hms_value)
  qed
  from same days exact show ?thesis by blast
qed

subsection \<open>URL construction\<close>

text \<open>
  Claim C1. The URL builder returns base/endpoint for a plain endpoint,
  base/workspaces/W/endpoint for a workspace endpoint and
  base/workspaces/W/user/U/endpoint for a workspace-user endpoint, for every endpoint,
  workspace id and user id; an omitted id is replaced by the default cached in the client
  (inserted as it is when it is a string, as the f-string does).
  With the base \<^verbatim>\<open>https://api.example.com/v1\<close>, the endpoint \<^verbatim>\<open>user\<close> gives
  \<^verbatim>\<open>https://api.example.com/v1/user\<close>, and the endpoint \<^verbatim>\<open>x\<close> in workspace \<^verbatim>\<open>W\<close> gives
  \<^verbatim>\<open>https://api.example.com/v1/workspaces/W/x\<close>.
\<close>

theorem get_url_shapes:
  "get_url bo so c e None W U = Inr (base_url c @ ''/'' @ e)
   \<and> get_url bo so c e (Some Workspace) (Some w) U =
       Inr (base_url c @ ''/workspaces/'' @ w @ ''/'' @ e)
   \<and> get_url bo so c e (Some Workspace_user) (Some w) (Some u) =
       Inr (base_url c @ ''/workspaces/'' @ w @ ''/user/'' @ u @ ''/'' @ e)
   \<and> (defaults c = Some d \<longrightarrow>
        get_url bo so c e (Some Workspace) None U =
          Inr (base_url c @ ''/workspaces/'' @ format_value so (workspaceId d) @ ''/'' @ e)
      \<and> get_url bo so c e (Some Workspace_user) None (Some u) =
          Inr (base_url c @ ''/workspaces/'' @ format_value so (workspaceId d) @ ''/user/''
                 @ u @ ''/'' @ e)
      \<and> get_url bo so c e (Some Workspace_user) (Some w) None =
          Inr (base_url c @ ''/workspaces/'' @ w @ ''/user/'' @ format_value so (userId d)
                 @ ''/'' @ e)
      \<and> get_url bo so c e (Some Workspace_user) None None =
          Inr (base_url c @ ''/workspaces/'' @ format_value so (workspaceId d) @ ''/user/''
                 @ format_value so (userId d) @ ''/'' @ e))
   \<and> format_value so (PStr i) = i
   \<and> (base_url c = ''https://api.example.com/v1'' \<longrightarrow>
        get_url bo so c ''user'' None W U = Inr ''https://api.example.com/v1/user''
      \<and> get_url bo so c ''x'' (Some Workspace) (Some ''W'') U =
          Inr ''https://api.example.com/v1/workspaces/W/x'')"
  by (simp add: default_workspace_def default_user_def format_value_def)

theorem get_url_shapes_witness:
  "get_url (\<lambda>h. True) (\<lambda>v. ''?'')
     \<lparr>session_headers = Map.empty, base_url = ''https://api.example.com/v1'',
      defaults = Some \<lparr>workspaceId = PStr ''w1'', userId = PStr ''u1''\<rparr>\<rparr>
     ''time-entries'' (Some Workspace_user) None None =
     Inr ''https://api.example.com/v1/workspaces/w1/user/u1/time-entries''
   \<and> get_url (\<lambda>h. True) (\<lambda>v. ''?'')
     \<lparr>session_headers = Map.empty, base_url = ''https://api.example.com/v1'',
      defaults = Some \<lparr>workspaceId = PStr ''w1'', userId = PStr ''u1''\<rparr>\<rparr>
     ''x'' (Some Workspace) (Some ''W'') None =
     Inr ''https://api.example.com/v1/workspaces/W/x''"
  using get_url_shapes [where bo = "\<lambda>h. True" and so = "\<lambda>v. ''?''"
     and c = "\<lparr>session_headers = Map.empty, base_url = ''https://api.example.com/v1'',
      defaults = Some \<lparr>workspaceId = PStr ''w1'', userId = PStr ''u1''\<rparr>\<rparr>"
     and e = "''time-entries''" and W = None and U = None and w = "''W''" and u = "''u''"
     and d = "\<lparr>workspaceId = PStr ''w1'', userId = PStr ''u1''\<rparr>"]
  by (simp add: format_value_def)

subsection \<open>The four operations\<close>

text \<open>
  Claim C8. Each of the four operations is one HTTP call: \<^verbatim>\<open>get_user\<close> a GET of the plain
  user endpoint, \<^verbatim>\<open>list_timeentry\<close> a GET of the workspace-user time-entries endpoint with
  the query parameters given, \<^verbatim>\<open>start_timeentry\<close> a POST to the workspace time-entries
  endpoint, \<^verbatim>\<open>stop_timeentry\<close> a PATCH to the workspace-user time-entries endpoint
  (for a client whose defaults are set and a body that \<^verbatim>\<open>orjson.dumps\<close> encodes). Such a
  call adds exactly its request to the requests sent, hands an exception of the transport
  to the caller as it is, and otherwise returns the decoder's result, a decoding error
  included.
\<close>

theorem operations_one_call:
  "get_user L w =
     one_call L \<lparr>req_method = GET, req_url = base_url (client w) @ ''/user'',
                 req_params = None, req_data = None,
                 req_headers = session_headers (client w)\<rparr> w
   \<and> (defaults (client w) = Some d \<longrightarrow>
        list_timeentry L W U ps w =
          one_call L \<lparr>req_method = GET,
                 req_url = base_url (client w) @ ''/workspaces/''
                   @ (case W of None \<Rightarrow> format_value (py_str L) (workspaceId d)
                      | Some x \<Rightarrow> x) @ ''/user/''
                   @ (case U of None \<Rightarrow> format_value (py_str L) (userId d)
                      | Some x \<Rightarrow> x) @ ''/time-entries'',
                 req_params = ps, req_data = None,
                 req_headers = session_headers (client w)\<rparr> w
      \<and> (dumps L body = Inr dat \<longrightarrow>
           start_timeentry L W body ps w =
             one_call L \<lparr>req_method = POST,
                 req_url = base_url (client w) @ ''/workspaces/''
                   @ (case W of None \<Rightarrow> format_value (py_str L) (workspaceId d)
                      | Some x \<Rightarrow> x) @ ''/time-entries'',
                 req_params = ps, req_data = Some dat,
                 req_headers = session_headers (client w)\<rparr> w
         \<and> stop_timeentry L W U body ps w =
             one_call L \<lparr>req_method = PATCH,
                 req_url = base_url (client w) @ ''/workspaces/''
                   @ (case W of None \<Rightarrow> format_value (py_str L) (workspaceId d)
                      | Some x \<Rightarrow> x) @ ''/user/''
                   @ (case U of None \<Rightarrow> format_value (py_str L) (userId d)
                      | Some x \<Rightarrow> x) @ ''/time-entries'',
                 req_params = ps, req_data = Some dat,
                 req_headers = session_headers (client w)\<rparr> w))
   \<and> sent (snd (one_call L rq w)) = sent w @ [rq]
   \<and> (fst (remote L (server w) rq) = Inl e \<longrightarrow> fst (one_call L rq w) = Inl e)
   \<and> (fst (remote L (server w) rq) = Inr r \<longrightarrow> fst (one_call L rq w) = loads L (text_of r))"
  using get_user_one_call [of L w] list_timeentry_one_call [of w d L W U ps]
    start_timeentry_one_call [of w d L body dat W ps]
    stop_timeentry_one_call [of w d L body dat W U ps]
  by (simp add: one_call_def)

theorem operations_one_call_witness:
  "sent (snd (stop_timeentry demo_library None None (PDict []) None demo_world)) =
     [\<lparr>req_method = PATCH,
       req_url = ''https://api.example.com/v1/workspaces/w1/user/u1/time-entries'',
       req_params = None, req_data = Some ''{body}'',
       req_headers = [''X-Api-Key'' \<mapsto> ''k'']\<rparr>]
   \<and> fst (start_timeentry demo_library (Some ''W'') (PDict []) None demo_world) =
       Inr (PDict [(''id'', PStr ''u1''), (''defaultWorkspace'', PStr ''w1'')])"
  using operations_one_call [of demo_library demo_world
      "\<lparr>workspaceId = PStr ''w1'', userId = PStr ''u1''\<rparr>" None None None "PDict []"
      "''{body}''"]
    operations_one_call [of demo_library demo_world
      "\<lparr>workspaceId = PStr ''w1'', userId = PStr ''u1''\<rparr>" "Some ''W''" None None
      "PDict []" "''{body}''"]
  by (simp add: demo_library_def demo_world_def one_call_def format_value_def)

subsection \<open>Construction of the client\<close>

text \<open>
  Claim C9. Every construction of the client sets the header \<^verbatim>\<open>X-Api-Key\<close> on the
  session, and the one request the constructor sends carries it: with the key \<^verbatim>\<open>None\<close>
  or the empty string the header is present with the empty string as its value, and is
  not left out.
\<close>

theorem init_api_key_header:
  "sent (snd (init L sb api_key bu s0)) =
     [\<lparr>req_method = GET, req_url = (case bu of None \<Rightarrow> sb | Some u \<Rightarrow> u) @ ''/user'',
       req_params = None, req_data = None,
       req_headers = (fresh_session_headers L)
          (''X-Api-Key'' \<mapsto> key_or_empty api_key, ''Content-Type'' \<mapsto> ''application/json'')\<rparr>]
   \<and> session_headers (client (snd (init L sb api_key bu s0))) ''X-Api-Key'' =
       Some (key_or_empty api_key)
   \<and> key_or_empty None = [] \<and> key_or_empty (Some []) = [] \<and> key_or_empty (Some k) = k"
  by (simp add: init_sent init_headers key_or_empty_def)

theorem init_api_key_header_witness:
  "map (\<lambda>rq. req_headers rq ''X-Api-Key'')
     (sent (snd (init demo_library ''https://api.example.com/v1'' None None ()))) = [Some []]"
  using init_api_key_header [of demo_library "''https://api.example.com/v1''" None None "()" "[]"]
  by (simp add: key_or_empty_def)

text \<open>
  Claim C7. A construction that succeeds has sent exactly one request, the GET of the
  user endpoint, and has stored the \<^verbatim>\<open>defaultWorkspace\<close> and \<^verbatim>\<open>id\<close> of the user document
  it received, as they are, as the client's defaults. Whatever operations run afterwards,
  in any number and order, the client object, its defaults among the rest, stays as it
  was: a call that omits the workspace or user id builds its URL from the ids captured at
  construction.
\<close>

theorem init_defaults_fixed:
  assumes "init L sb k bu s0 = (Inr (), w)"
  shows "sent w =
           [\<lparr>req_method = GET, req_url = (case bu of None \<Rightarrow> sb | Some u \<Rightarrow> u) @ ''/user'',
             req_params = None, req_data = None,
             req_headers = session_headers (client w)\<rparr>]
       \<and> (\<exists>resp ud ws uid.
             fst (remote L s0 (hd (sent w))) = Inr resp
           \<and> loads L (text_of resp) = Inr ud
           \<and> subscript ud ''defaultWorkspace'' = Inr ws
           \<and> subscript ud ''id'' = Inr uid
           \<and> defaults (client w) = Some \<lparr>workspaceId = ws, userId = uid\<rparr>
           \<and> (\<forall>ops. client (calls L ops w) = client w)
           \<and> (\<forall>ops e.
                 get_url (bracket_ok L) (py_str L) (client (calls L ops w)) e (Some Workspace) None None =
                   Inr (base_url (client w) @ ''/workspaces/'' @ format_value (py_str L) ws @ ''/'' @ e)
               \<and> get_url (bracket_ok L) (py_str L) (client (calls L ops w)) e (Some Workspace_user)
                     None None =
                   Inr (base_url (client w) @ ''/workspaces/'' @ format_value (py_str L) ws
                          @ ''/user/'' @ format_value (py_str L) uid @ ''/'' @ e))
           \<and> (\<forall>ops ps.
                 list_timeentry L None None ps (calls L ops w) =
                   one_call L
                     \<lparr>req_method = GET,
                      req_url = base_url (client w) @ ''/workspaces/''
                                  @ format_value (py_str L) ws @ ''/user/''
                                  @ format_value (py_str L) uid @ ''/time-entries'',
                      req_params = ps, req_data = None,
                      req_headers = session_headers (client w)\<rparr> (calls L ops w)))"
proof -
  let ?hs = "(fresh_session_headers L)
      (''X-Api-Key'' \<mapsto> key_or_empty k, ''Content-Type'' \<mapsto> ''application/json'')"
  let ?rq = "\<lparr>req_method = GET, req_url = (case bu of None \<Rightarrow> sb | Some u \<Rightarrow> u) @ ''/user'',
      req_params = None, req_data = None, req_headers = ?hs\<rparr>"
  have hs: "session_headers (client w) = ?hs"
    using init_headers [of L sb k bu s0] assms by simp
  have snt: "sent w = [?rq]"
    using init_sent [of L sb k bu s0] assms by simp
  obtain resp ud ws uid where
    r: "remote L s0 ?rq = (Inr resp, server w)" and
    l: "loads L (text_of resp) = Inr ud" and
    dw: "subscript ud ''defaultWorkspace'' = Inr ws" and
    di: "subscript ud ''id'' = Inr uid" and
    d: "defaults (client w) = Some \<lparr>workspaceId = ws, userId = uid\<rparr>"
    using init_success [OF assms] by blast
  have urls: "get_url (bracket_ok L) (py_str L) (client (calls L ops w)) e (Some Workspace) None None =
                   Inr (base_url (client w) @ ''/workspaces/'' @ format_value (py_str L) ws @ ''/'' @ e)
               \<and> get_url (bracket_ok L) (py_str L) (client (calls L ops w)) e (Some Workspace_user)
                     None None =
                   Inr (base_url (client w) @ ''/workspaces/'' @ format_value (py_str L) ws
                          @ ''/user/'' @ format_value (py_str L) uid @ ''/'' @ e)" for ops e
    using d by (simp add: calls_client default_workspace_def default_user_def)
  have lst: "list_timeentry L None None ps (calls L ops w) =
                   one_call L
                     \<lparr>req_method = GET,
                      req_url = base_url (client w) @ ''/workspaces/''
                                  @ format_value (py_str L) ws @ ''/user/''
                                  @ format_value (py_str L) uid @ ''/time-entries'',
                      req_params = ps, req_data = None,
                      req_headers = session_headers (client w)\<rparr> (calls L ops w)" for ops ps
    using list_timeentry_one_call [of "calls L ops w" "\<lparr>workspaceId = ws, userId = uid\<rparr>"
        L None None ps] d
    by (simp add: calls_client)
  have fetched: "fst (remote L s0 (hd (sent w))) = Inr resp"
    using r snt by simp
  have first: "sent w =
           [\<lparr>req_method = GET, req_url = (case bu of None \<Rightarrow> sb | Some u \<Rightarrow> u) @ ''/user'',
             req_params = None, req_data = None,
             req_headers = session_headers (client w)\<rparr>]"
    using snt hs by simp
  show ?thesis
    apply (rule conjI [OF first])
    apply (rule exI [of _ resp], rule exI [of _ ud], rule exI [of _ ws], rule exI [of _ uid])
    apply (intro conjI allI)
            apply (rule fetched)
           apply (rule l)
          apply (rule dw)
         apply (rule di)
        apply (rule d)
       apply (simp add: calls_client)
      apply (rule urls [THEN conjunct1])
     apply (rule urls [THEN conjunct2])
    apply (rule lst)
    done
qed

theorem init_defaults_fixed_witness:
  "init demo_library ''https://api.example.com/v1'' (Some ''k'') None () =
     (Inr (), demo_client_world)
   \<and> defaults (client (calls demo_library
        [Start_timeentry None (PDict []) None, Get_user, Stop_timeentry None None PNone None]
        demo_client_world)) = Some \<lparr>workspaceId = PStr ''w1'', userId = PStr ''u1''\<rparr>"
proof -
  have h: "init demo_library ''https://api.example.com/v1'' (Some ''k'') None () =
     (Inr (), demo_client_world)"
    by (rule demo_init)
  have "\<forall>ops. client (calls demo_library ops demo_client_world) = client demo_client_world"
    using init_defaults_fixed [OF h] by blast
  then have "client (calls demo_library
        [Start_timeentry None (PDict []) None, Get_user, Stop_timeentry None None PNone None]
        demo_client_world) = client demo_client_world"
    by blast
  with h show ?thesis by (simp add: demo_client_world_def)
qed

subsection \<open>Settings\<close>

text \<open>
  Claim C5. Loading a well-formed TOML file whose content matches the settings schema
  (the keys \<^verbatim>\<open>BASE_URL\<close>, a string, and \<^verbatim>\<open>API_KEY\<close>, a string or absent) returns the settings
  whose fields are the values stored in the file, and leaves the disk as it was. A value
  in the file wins over the environment; a key the file leaves out is filled from the
  environment, or stays \<^verbatim>\<open>None\<close>.
\<close>

theorem load_reads_file:
  assumes "read_file fs (case filepath of None \<Rightarrow> appdirs_path P | Some q \<Rightarrow> q) = Inr txt"
    and "toml_parse P txt = Inr data"
    and "list_all (\<lambda>k. k = ''BASE_URL'' \<or> k = ''API_KEY'') (map fst data)"
    and "map_of data ''BASE_URL'' = Some (TString b)"
    and "map_of data ''API_KEY'' = map_option TString ko"
  shows "load P filepath fs =
           (Inr \<lparr>BASE_URL = b,
                 API_KEY = (case ko of Some k \<Rightarrow> Some k | None \<Rightarrow> environ P ''api_key'')\<rparr>,
            fs)"
proof -
  have "load_try P (case filepath of None \<Rightarrow> appdirs_path P | Some q \<Rightarrow> q) fs =
          Inr \<lparr>BASE_URL = b,
                API_KEY = (case ko of Some k \<Rightarrow> Some k | None \<Rightarrow> environ P ''api_key'')\<rparr>"
    using assms(1,2) parse_obj_schema [OF assms(3,4,5), of P] by (simp add: load_try_def)
  then show ?thesis by (simp add: load_def)
qed

theorem load_reads_file_witness:
  "load (demo_platform [''api_key'' \<mapsto> ''other'', ''base_url'' \<mapsto> ''http://localhost''])
        None demo_disk =
     (Inr \<lparr>BASE_URL = ''https://api.example.com/v1'', API_KEY = Some ''k''\<rparr>, demo_disk)"
proof -
  let ?P = "demo_platform [''api_key'' \<mapsto> ''other'', ''base_url'' \<mapsto> ''http://localhost'']"
  have r: "read_file demo_disk (case None of None \<Rightarrow> appdirs_path ?P | Some q \<Rightarrow> q) =
          Inr demo_toml"
    by (simp add: read_file_def demo_disk_def demo_platform_simps)
  have k: "list_all (\<lambda>k. k = ''BASE_URL'' \<or> k = ''API_KEY'')
             (map fst [(''BASE_URL'', TString ''https://api.example.com/v1''),
                       (''API_KEY'', TString ''k'')])"
    by simp
  have b: "map_of [(''BASE_URL'', TString ''https://api.example.com/v1''),
                   (''API_KEY'', TString ''k'')] ''BASE_URL'' =
           Some (TString ''https://api.example.com/v1'')"
    by simp
  have a: "map_of [(''BASE_URL'', TString ''https://api.example.com/v1''),
                   (''API_KEY'', TString ''k'')] ''API_KEY'' = map_option TString (Some ''k'')"
    by simp
  show ?thesis
    using load_reads_file [OF r demo_parse k b a] by simp
qed

text \<open>
  Claim C10. When \<^verbatim>\<open>load\<close> is given a path and the file there is missing, the fallback
  settings are to be persisted at the platform's default configuration path, not at the
  given path, which stays uncreated. The code does call \<^verbatim>\<open>save\<close> with no path, and the
  given path stays uncreated; but on an empty disk and in an empty environment nothing is
  persisted: the default path is left with an empty file and \<^verbatim>\<open>load\<close> raises
  \<^verbatim>\<open>ValueError\<close>.
\<close>

theorem load_explicit_path_first_run:
  "fst (load (demo_platform Map.empty) (Some ''my.toml'') empty_disk) = Inl ValueError
   \<and> files (snd (load (demo_platform Map.empty) (Some ''my.toml'') empty_disk)) ''my.toml'' =
       None
   \<and> files (snd (load (demo_platform Map.empty) (Some ''my.toml'') empty_disk)) demo_path =
       Some \<lparr>content = [], readable = True, writable = True\<rparr>"
  by (simp add: explicit_path_first_run) (simp add: demo_path_def)

text \<open>
  Claim C4. The round trip through \<^verbatim>\<open>to_str\<close> is claimed for every settings value, the
  default \<^verbatim>\<open>API_KEY = None\<close> included. For the settings \<^verbatim>\<open>cls()\<close> builds in an empty
  environment, \<^verbatim>\<open>to_str\<close> returns no TOML text at all: it raises \<^verbatim>\<open>ValueError\<close>.
\<close>

theorem to_str_default_raises:
  "to_str (demo_platform Map.empty)
     \<lparr>BASE_URL = ''https://api.clockify.me/api/v1'', API_KEY = None\<rparr> = Inl ValueError
   \<and> new_settings (demo_platform Map.empty) =
       \<lparr>BASE_URL = ''https://api.clockify.me/api/v1'', API_KEY = None\<rparr>"
  by (simp add: to_str_def dict_def new_settings_def demo_platform_def)

text \<open>
  Claim C3. With a missing settings file, \<^verbatim>\<open>load\<close> is claimed to build the default
  settings, save them and return them. On an empty disk and in an empty environment,
  \<^verbatim>\<open>load\<close> raises \<^verbatim>\<open>ValueError\<close> instead and leaves an empty file at the default path; a
  second \<^verbatim>\<open>load\<close> reads that empty file and returns the defaults.
\<close>

theorem load_first_run_raises:
  "fst (load (demo_platform Map.empty) None empty_disk) = Inl ValueError
   \<and> files (snd (load (demo_platform Map.empty) None empty_disk)) demo_path =
       Some \<lparr>content = [], readable = True, writable = True\<rparr>
   \<and> fst (load (demo_platform Map.empty) None
             (snd (load (demo_platform Map.empty) None empty_disk))) =
       Inr \<lparr>BASE_URL = ''https://api.clockify.me/api/v1'', API_KEY = None\<rparr>"
proof -
  let ?fs = "empty_disk\<lparr>files := [demo_path \<mapsto> \<lparr>content = [], readable = True, writable = True\<rparr>]\<rparr>"
  have "read_file ?fs (appdirs_path (demo_platform Map.empty)) = Inr []"
    by (simp add: read_file_def demo_platform_simps)
  then have "load (demo_platform Map.empty) None ?fs =
      (Inr (new_settings (demo_platform Map.empty)), ?fs)"
    by (rule load_empty_file) (simp add: demo_platform_simps)
  then show ?thesis
    by (simp add: first_run new_settings_def demo_platform_simps)
qed

subsection \<open>Elapsed time\<close>

text \<open>
  Claim C6. The elapsed time is to be now minus start, formatted as
  hours:minutes:seconds, as the docstring of \<^verbatim>\<open>get_timedelta\<close> says too. For a start 1 hour,
  2 minutes and 3 seconds before now the code returns \<^verbatim>\<open>1:02:03\<close>. For a start 25 hours
  before now it returns \<^verbatim>\<open>1 day, 1:00:00\<close>, which is not \<^verbatim>\<open>25:00:00\<close> and not of the
  format hours:minutes:seconds.
\<close>

theorem get_timedelta_25_hours:
  "get_timedelta (\<lambda>s. Inr (Aware 1000000)) 3724000250 ''1970-01-01T00:00:01Z'' =
     Inr ''1:02:03''
   \<and> get_timedelta (\<lambda>s. Inr (Aware 0)) 90000000000 ''1970-01-01T00:00:00Z'' =
     Inr ''1 day, 1:00:00''
   \<and> hours_minutes_seconds ((90000000000 - 0) div 1000000) = ''25:00:00''
   \<and> get_timedelta (\<lambda>s. Inr (Aware 0)) 90000000000 ''1970-01-01T00:00:00Z'' \<noteq>
       Inr (hours_minutes_seconds ((90000000000 - 0) div 1000000))"
  by code_simp

subsection \<open>The reports URL\<close>

text \<open>
  Claim C2. For a base URL \<^verbatim>\<open>scheme://netloc/path\<close> (a scheme of letters, digits, \<^verbatim>\<open>+\<close>,
  \<^verbatim>\<open>-\<close>, \<^verbatim>\<open>.\<close> that starts with a letter; a network location that is not empty; a path
  that is empty or starts with a slash and has no query, fragment or parameters), the
  report URL of an endpoint is the base URL with the first \<^verbatim>\<open>api\<close> of the network location
  replaced by \<^verbatim>\<open>reports\<close>, followed by a slash and the endpoint. The path is carried over
  as it is, also where it contains \<^verbatim>\<open>api\<close>; the scheme comes out in lower case, as
  \<^verbatim>\<open>urlparse\<close> returns it.
\<close>

theorem reports_url_host_only:
  assumes "base_url c = sch @ ''://'' @ nl @ pth"
    and "sch \<noteq> []" and "is_ascii_alpha (hd sch)"
    and "list_all (\<lambda>c. c \<in> set scheme_chars) sch"
    and "nl \<noteq> []"
    and "list_all (\<lambda>c. c \<notin> set ''/?#[]'' \<and> \<not> unsafe_url_byte c) nl"
    and "pth = [] \<or> hd pth = CHR ''/''"
    and "list_all (\<lambda>c. c \<notin> set ''?#;'' \<and> \<not> unsafe_url_byte c) pth"
  shows "get_url bo so c e (Some Report) W U =
           Inr (map lower_char sch @ ''://'' @ replace_first ''api'' ''reports'' nl @ pth
                  @ ''/'' @ e)"
proof -
  have parsed: "urlparse bo (base_url c) =
      Inr \<lparr>scheme = map lower_char sch, netloc = nl, path = pth, params = [],
           query = [], fragment = []\<rparr>"
    unfolding assms(1) by (rule urlparse_hierarchical) fact+
  have "replace_first ''api'' ''reports'' nl \<noteq> []"
    using assms(5) by (rule replace_first_nonempty) simp
  then have "urlunparse \<lparr>scheme = map lower_char sch,
        netloc = replace_first ''api'' ''reports'' nl, path = pth, params = [],
        query = [], fragment = []\<rparr> =
      map lower_char sch @ ''://'' @ replace_first ''api'' ''reports'' nl @ pth"
    using assms(2,7) by (intro urlunparse_hierarchical) simp_all
  then show ?thesis
    by (simp add: reports_base_url_def parsed)
qed

theorem reports_url_host_only_witness:
  "get_url (\<lambda>h. True) (\<lambda>v. ''?'')
     \<lparr>session_headers = Map.empty, base_url = ''https://api.clockify.me/api/v1'',
      defaults = None\<rparr>
     ''summary'' (Some Report) None None =
     Inr ''https://reports.clockify.me/api/v1/summary''"
proof -
  let ?c = "\<lparr>session_headers = Map.empty, base_url = ''https://api.clockify.me/api/v1'',
      defaults = None\<rparr>"
  have b: "base_url ?c = ''https'' @ ''://'' @ ''api.clockify.me'' @ ''/api/v1''"
    by simp
  have s1: "''https'' \<noteq> []" and n0: "''api.clockify.me'' \<noteq> []"
    by simp_all
  have s2: "is_ascii_alpha (hd ''https'')"
    by (simp add: is_ascii_alpha_def)
  have s3: "list_all (\<lambda>c. c \<in> set scheme_chars) ''https''"
    by (simp add: scheme_chars_def)
  have n1: "list_all (\<lambda>c. c \<notin> set ''/?#[]'' \<and> \<not> unsafe_url_byte c) ''api.clockify.me''"
    by (simp add: unsafe_url_byte_def)
  have p0: "''/api/v1'' = [] \<or> hd ''/api/v1'' = CHR ''/''"
    by simp
  have p1: "list_all (\<lambda>c. c \<notin> set ''?#;'' \<and> \<not> unsafe_url_byte c) ''/api/v1''"
    by (simp add: unsafe_url_byte_def)
  have l: "map lower_char ''https'' = ''https''"
    by (simp add: lower_char_def)
  have r: "replace_first ''api'' ''reports'' ''api.clockify.me'' = ''reports.clockify.me''"
    by simp
  show ?thesis
    using reports_url_host_only [OF b s1 s2 s3 n0 n1 p0 p1, where bo = "\<lambda>h. True"
        and so = "\<lambda>v. ''?''" and e = "''summary''" and W = None and U = None]
    unfolding l r by simp
qed

end
